theory Spec2Isabelle
  imports Main
begin

unbundle bit_operations_syntax

section \<open>The Go library functions the server calls\<close>

text \<open>
  The webhook server of \<^verbatim>\<open>src/webhook/server.go\<close> (handlers keyed by object, one callback
  path) and its sibling \<^verbatim>\<open>src/unnamed/part_000\<close> (handlers keyed by URL pattern and object)
  call a handful of functions of the Go standard library. They are modelled here as the
  library documents them. A Go \<^verbatim>\<open>string\<close> and a \<^verbatim>\<open>[]byte\<close> are both sequences of bytes:
  a \<^typ>\<open>string\<close> of HOL, whose characters are bytes.
\<close>

subsection \<open>strings.Split\<close>

text \<open>
  \<^verbatim>\<open>strings.Split(s, sep)\<close> cuts \<^verbatim>\<open>s\<close> at every occurrence of \<^verbatim>\<open>sep\<close> and returns the
  pieces between them, one more than there are separators; with no separator in \<^verbatim>\<open>s\<close>
  (also for the empty \<^verbatim>\<open>s\<close>) the result is the one-element slice holding \<^verbatim>\<open>s\<close>. The
  server only ever passes the one-byte separator \<^verbatim>\<open>"="\<close>, so the separator is a character.
\<close>

fun Split :: "string \<Rightarrow> char \<Rightarrow> string list" where
  "Split [] sep = [[]]"
| "Split (c # cs) sep =
     (if c = sep then [] # Split cs sep
      else (case Split cs sep of
              [] \<Rightarrow> [[c]]
            | e # es \<Rightarrow> (c # e) # es))"

subsection \<open>crypto/sha1, crypto/hmac and encoding/hex\<close>

text \<open>
  SHA-1 (FIPS 180-4) on a list of bytes. A byte is a natural number below 256 and a
  32-bit word a natural number below \<open>2 ^ 32\<close>, the wrap-around written out with
  \<^const>\<open>take_bit\<close>.
\<close>

type_synonym byte = nat

definition bytes :: "string \<Rightarrow> byte list" where
  "bytes s = map of_char s"

definition rotl :: "nat \<Rightarrow> nat \<Rightarrow> nat" where
  "rotl n x = take_bit 32 (push_bit n x) OR drop_bit (32 - n) x"

fun be32 :: "byte list \<Rightarrow> nat list" where
  "be32 (a # b # c # d # r) =
     (push_bit 24 a OR push_bit 16 b OR push_bit 8 c OR d) # be32 r"
| "be32 _ = []"

definition putUint32 :: "nat \<Rightarrow> byte list" where
  "putUint32 x = map (\<lambda>k. take_bit 8 (drop_bit k x)) [24, 16, 8, 0]"

definition putUint64 :: "nat \<Rightarrow> byte list" where
  "putUint64 x = map (\<lambda>k. take_bit 8 (drop_bit k x)) [56, 48, 40, 32, 24, 16, 8, 0]"

text \<open>
  The message, the byte \<open>0x80\<close>, zero bytes up to 56 modulo 64, and the length of the
  message in bits as a 64-bit big-endian number.
\<close>

definition padding :: "byte list \<Rightarrow> byte list" where
  "padding m = m @ [0x80] @ replicate ((119 - length m mod 64) mod 64) 0
      @ putUint64 (take_bit 64 (push_bit 3 (length m)))"

text \<open>
  The message schedule: the 16 words of a block, extended to \<open>n\<close> words through a
  window of the last 16.
\<close>

fun schedule :: "nat \<Rightarrow> nat list \<Rightarrow> nat list" where
  "schedule n w = (if n = 0 then [] else
     hd w # schedule (n - 1) (tl w @ [rotl 1 (w ! 13 XOR w ! 8 XOR w ! 2 XOR w ! 0)]))"

declare schedule.simps [simp del]

type_synonym digest = "nat \<times> nat \<times> nat \<times> nat \<times> nat"

fun round1 :: "nat \<Rightarrow> digest \<Rightarrow> nat \<Rightarrow> digest" where
  "round1 i (a, b, c, d, e) w =
     (let f = (if i < 20 then (b AND c) OR ((4294967295 - b) AND d)
               else if i < 40 then b XOR c XOR d
               else if i < 60 then ((b OR c) AND d) OR (b AND c)
               else b XOR c XOR d);
          k = (if i < 20 then 0x5A827999 else if i < 40 then 0x6ED9EBA1
               else if i < 60 then 0x8F1BBCDC else 0xCA62C1D6)
      in (take_bit 32 (rotl 5 a + f + e + w + k), a, rotl 30 b, c, d))"

fun rounds :: "nat \<Rightarrow> digest \<Rightarrow> nat list \<Rightarrow> digest" where
  "rounds i h [] = h"
| "rounds i h (w # ws) = rounds (i + 1) (round1 i h w) ws"

fun block :: "digest \<Rightarrow> nat list \<Rightarrow> digest" where
  "block (h0, h1, h2, h3, h4) w =
     (case rounds 0 (h0, h1, h2, h3, h4) (schedule 80 w) of
        (a, b, c, d, e) \<Rightarrow>
          (take_bit 32 (h0 + a), take_bit 32 (h1 + b), take_bit 32 (h2 + c),
           take_bit 32 (h3 + d), take_bit 32 (h4 + e)))"

fun blocks :: "digest \<Rightarrow> nat list \<Rightarrow> digest" where
  "blocks h ws = (if ws = [] then h else blocks (block h (take 16 ws)) (drop 16 ws))"

declare blocks.simps [simp del]

definition sha1_Sum :: "byte list \<Rightarrow> byte list" where
  "sha1_Sum m =
     (case blocks (0x67452301, 0xEFCDAB89, 0x98BADCFE, 0x10325476, 0xC3D2E1F0)
             (be32 (padding m)) of
        (a, b, c, d, e) \<Rightarrow> concat (map putUint32 [a, b, c, d, e]))"

text \<open>
  HMAC (RFC 2104) with SHA-1, whose block size is 64 bytes: a longer key is hashed
  first, a shorter one is filled with zero bytes.
\<close>

definition hmac_sha1 :: "byte list \<Rightarrow> byte list \<Rightarrow> byte list" where
  "hmac_sha1 key m =
     (let k = (if length key > 64 then sha1_Sum key else key);
          k0 = k @ replicate (64 - length k) 0
      in sha1_Sum (map (\<lambda>b. b XOR 0x5c) k0 @ sha1_Sum (map (\<lambda>b. b XOR 0x36) k0 @ m)))"

text \<open>\<^verbatim>\<open>hex.EncodeToString\<close>: two lower-case hexadecimal digits for every byte.\<close>

definition hexdigit :: "nat \<Rightarrow> char" where
  "hexdigit n = ''0123456789abcdef'' ! n"

definition EncodeToString :: "byte list \<Rightarrow> string" where
  "EncodeToString bs = concat (map (\<lambda>b. [hexdigit (drop_bit 4 b), hexdigit (b AND 0x0f)]) bs)"

subsection \<open>errors\<close>

text \<open>An \<^verbatim>\<open>error\<close> made by \<^verbatim>\<open>errors.New\<close> carries its message; \<^verbatim>\<open>nil\<close> is \<^const>\<open>None\<close>.\<close>

datatype error = errors_New string

subsection \<open>net/http: the request, its body and the response writer\<close>

text \<open>
  The body of a request is a stream. \<open>unread\<close> is what it still has to deliver and
  \<open>failure\<close> the error it ends with, if it does not end with \<^verbatim>\<open>io.EOF\<close>.
  \<^verbatim>\<open>bytes.Buffer.ReadFrom\<close> reads the stream to its end: the buffer then holds every byte
  that was left, the error is the stream's (\<^verbatim>\<open>io.EOF\<close> is no error), and nothing is left
  in the stream for a later read.
\<close>

record Reader =
  unread :: string
  failure :: "error option"

definition ReadFrom :: "Reader \<Rightarrow> (string \<times> error option) \<times> Reader" where
  "ReadFrom rd = ((unread rd, failure rd), rd\<lparr>unread := []\<rparr>)"

text \<open>
  \<open>Header\<close> and the form values map a key to its values. \<open>Form\<close> is what
  \<^verbatim>\<open>r.ParseForm()\<close> makes of the query of the request: \<^const>\<open>None\<close> when it cannot be
  parsed. \<^verbatim>\<open>Header.Get\<close> and \<^verbatim>\<open>FormValue\<close> return the first value of a key, and the empty
  string when the key has none.
\<close>

type_synonym Values = "string \<rightharpoonup> string list"

record Request =
  Method :: string
  Header :: Values
  Form :: "Values option"
  Body :: Reader

definition Header_Get :: "Values \<Rightarrow> string \<Rightarrow> string" where
  "Header_Get h key = (case h key of None \<Rightarrow> [] | Some [] \<Rightarrow> [] | Some (v # vs) \<Rightarrow> v)"

definition FormValue :: "Values \<Rightarrow> string \<Rightarrow> string" where
  "FormValue f key = (case f key of None \<Rightarrow> [] | Some [] \<Rightarrow> [] | Some (v # vs) \<Rightarrow> v)"

text \<open>
  The response writer: the status once it has been written, and the body written so
  far. \<^verbatim>\<open>WriteHeader\<close> sets the status unless one has been sent; \<^verbatim>\<open>Write\<close> sends
  status 200 first when none has been sent. A handler that returns without writing
  anything answers 200.
\<close>

record ResponseWriter =
  status :: "nat option"
  body :: string

abbreviation StatusOK :: nat where "StatusOK \<equiv> 200"
abbreviation StatusBadRequest :: nat where "StatusBadRequest \<equiv> 400"
abbreviation StatusForbidden :: nat where "StatusForbidden \<equiv> 403"

definition newResponseWriter :: ResponseWriter where
  "newResponseWriter = \<lparr>status = None, body = []\<rparr>"

definition WriteHeader :: "nat \<Rightarrow> ResponseWriter \<Rightarrow> ResponseWriter" where
  "WriteHeader code w = (if status w = None then w\<lparr>status := Some code\<rparr> else w)"

definition Write :: "string \<Rightarrow> ResponseWriter \<Rightarrow> ResponseWriter" where
  "Write bs w = (WriteHeader StatusOK w)\<lparr>body := body w @ bs\<rparr>"

definition StatusCode :: "ResponseWriter \<Rightarrow> nat" where
  "StatusCode w = (case status w of None \<Rightarrow> StatusOK | Some code \<Rightarrow> code)"

section \<open>The server\<close>

subsection \<open>The envelope and its handlers\<close>

text \<open>
  Modelled from the spec: the types \<^verbatim>\<open>decode.RequestBody\<close> and \<^verbatim>\<open>decode.Object\<close> of the
  package \<^verbatim>\<open>github.com/sunmyinf/go-workplace/decode\<close>, which this repository imports and
  does not contain. The envelope is a "parsed payload with at least one required field,
  Object", a discriminator; the rest of the payload is opaque to the server and is the
  type parameter. \<^verbatim>\<open>json.Unmarshal\<close> into an envelope is the "external parser
  collaborator" of the spec: a parameter \<open>Unmarshal\<close> of the handler functions, from
  the bytes to an error or an envelope.
\<close>

type_synonym Object = string

record 'e RequestBody =
  Object :: Object
  Entry :: 'e

type_synonym 'e ObjectHandler = "'e RequestBody \<Rightarrow> error option"

type_synonym 'e Unmarshal = "string \<Rightarrow> error + 'e RequestBody"

text \<open>
  What a handler function of the server leaves behind: the response writer, and the
  object handler it has called with the envelope it passed, if it has called one.
\<close>

type_synonym 'e Served = "ResponseWriter \<times> ('e ObjectHandler \<times> 'e RequestBody) option"

subsection \<open>Server, NewServer\<close>

text \<open>
  \<^verbatim>\<open>Server\<close> is the same struct in both files but for the type of \<^verbatim>\<open>objectHandlers\<close>, the
  type parameter: a map from objects to handlers in server.go, a map from patterns to
  such maps in part\_000. A Go map can be \<^verbatim>\<open>nil\<close>, which \<^verbatim>\<open>NewServer\<close> leaves it: \<^const>\<open>None\<close>.
  The \<^verbatim>\<open>mux\<close> belongs to the HTTP transport and is not modelled.
\<close>

record 'h Server =
  Secret :: string
  AccessToken :: string
  VerificationToken :: string
  objectHandlers :: "'h option"

definition NewServer :: "string \<Rightarrow> string \<Rightarrow> string \<Rightarrow> 'h Server" where
  "NewServer secret accessToken verificationToken =
     \<lparr>Secret = secret, AccessToken = accessToken, VerificationToken = verificationToken,
      objectHandlers = None\<rparr>"

subsection \<open>verifySignature (the same function in both files)\<close>

definition expectedHash :: "string \<Rightarrow> string \<Rightarrow> string" where
  "expectedHash secret payload = EncodeToString (hmac_sha1 (bytes secret) (bytes payload))"

definition verifySignature :: "string \<Rightarrow> string \<Rightarrow> string \<Rightarrow> error option" where
  "verifySignature sig secret payload =
     (if sig = [] then Some (errors_New ''error: signature is empty'')
      else
        let elements = Split sig CHR ''=''
        in if length elements < 2 then Some (errors_New ''errors: invalid signature'')
           else
             let signatureHash = elements ! 1
             in if signatureHash \<noteq> expectedHash secret payload
                then Some (errors_New ''error: signature hash do not match expected hash'')
                else None)"

text \<open>The names the spec gives to the three errors of \<^const>\<open>verifySignature\<close>.\<close>

definition MissingSignature :: error where
  "MissingSignature = errors_New ''error: signature is empty''"

definition MalformedSignature :: error where
  "MalformedSignature = errors_New ''errors: invalid signature''"

definition SignatureMismatch :: error where
  "SignatureMismatch = errors_New ''error: signature hash do not match expected hash''"

subsection \<open>server.go: handlers keyed by object\<close>

type_synonym 'e ObjectHandlers = "Object \<rightharpoonup> 'e ObjectHandler"

definition HandleObjectFunc ::
  "'e ObjectHandlers Server \<Rightarrow> Object \<Rightarrow> 'e ObjectHandler \<Rightarrow> 'e ObjectHandlers Server" where
  "HandleObjectFunc ws object objectHandler =
     (let handlers = (case objectHandlers ws of None \<Rightarrow> Map.empty | Some m \<Rightarrow> m)
      in ws\<lparr>objectHandlers := Some (handlers(object \<mapsto> objectHandler))\<rparr>)"

text \<open>
  \<^verbatim>\<open>parsePostRequestBody\<close> reads the body of the request it is given into a buffer of its
  own and decodes that buffer.
\<close>

definition parsePostRequestBody ::
  "'e Unmarshal \<Rightarrow> Request \<Rightarrow> (error + 'e RequestBody) \<times> Request" where
  "parsePostRequestBody Unmarshal r =
     (case ReadFrom (Body r) of
        ((bufBody, err), rest) \<Rightarrow>
          (case err of
             Some e \<Rightarrow> (Inl e, r\<lparr>Body := rest\<rparr>)
           | None \<Rightarrow> (Unmarshal bufBody, r\<lparr>Body := rest\<rparr>)))"

definition rootHandlerFunc ::
  "'e Unmarshal \<Rightarrow> 'e ObjectHandlers Server \<Rightarrow> ResponseWriter \<Rightarrow> Request \<Rightarrow> 'e Served" where
  "rootHandlerFunc Unmarshal ws w r =
     (if Method r = ''GET'' then
        (case Form r of
           None \<Rightarrow> (WriteHeader StatusBadRequest w, None)
         | Some form \<Rightarrow>
             if FormValue form ''hub.mode'' = ''subscribe'' \<and>
                FormValue form ''hub.verify_token'' = VerificationToken ws
             then (Write (FormValue form ''hub.challenge'') w, None)
             else (WriteHeader StatusForbidden w, None))
      else if Method r = ''POST'' then
        (case ReadFrom (Body r) of
           ((bufBody, err), rest) \<Rightarrow>
             (case err of
                Some e \<Rightarrow> (WriteHeader StatusBadRequest w, None)
              | None \<Rightarrow>
                  (case verifySignature (Header_Get (Header r) ''X-Hub-Signature'')
                          (Secret ws) bufBody of
                     Some e \<Rightarrow> (WriteHeader StatusForbidden w, None)
                   | None \<Rightarrow>
                       (case fst (parsePostRequestBody Unmarshal (r\<lparr>Body := rest\<rparr>)) of
                          Inl e \<Rightarrow> (WriteHeader StatusBadRequest w, None)
                        | Inr rb \<Rightarrow>
                            (case (case objectHandlers ws of
                                     None \<Rightarrow> None
                                   | Some m \<Rightarrow> m (Object rb)) of
                               None \<Rightarrow> (WriteHeader StatusOK w, None)
                             | Some handler \<Rightarrow>
                                 (case handler rb of
                                    Some e \<Rightarrow> (WriteHeader StatusBadRequest w, Some (handler, rb))
                                  | None \<Rightarrow> (WriteHeader StatusOK w, Some (handler, rb))))))))
      else (WriteHeader StatusForbidden w, None))"

subsection \<open>part\_000: handlers keyed by pattern and object\<close>

type_synonym 'e PatternHandlers = "string \<rightharpoonup> 'e ObjectHandlers"

definition HandleObjectFunc_pattern ::
  "'e PatternHandlers Server \<Rightarrow> string \<Rightarrow> Object \<Rightarrow> 'e ObjectHandler
     \<Rightarrow> 'e PatternHandlers Server" where
  "HandleObjectFunc_pattern ws pattern object objectHandler =
     (let patterns = (case objectHandlers ws of None \<Rightarrow> Map.empty | Some m \<Rightarrow> m);
          handlers = (case patterns pattern of None \<Rightarrow> Map.empty | Some m \<Rightarrow> m)
      in ws\<lparr>objectHandlers := Some (patterns(pattern \<mapsto> handlers(object \<mapsto> objectHandler)))\<rparr>)"

definition webhookHandlerFunc :: "'h Server \<Rightarrow> ResponseWriter \<Rightarrow> Request \<Rightarrow> ResponseWriter" where
  "webhookHandlerFunc ws w r =
     (if Method r = ''GET'' then
        (case Form r of
           None \<Rightarrow> WriteHeader StatusBadRequest w
         | Some form \<Rightarrow>
             if FormValue form ''hub.mode'' = ''subscribe'' \<and>
                FormValue form ''hub.verify_token'' = VerificationToken ws
             then Write (FormValue form ''hub.challenge'') w
             else WriteHeader StatusForbidden w)
      else WriteHeader StatusForbidden w)"

definition getObjectHandlerFunc ::
  "'e Unmarshal \<Rightarrow> 'e PatternHandlers Server \<Rightarrow> string \<Rightarrow> ResponseWriter \<Rightarrow> Request
     \<Rightarrow> 'e Served" where
  "getObjectHandlerFunc Unmarshal ws pattern w r =
     (if Method r = ''POST'' then
        (case ReadFrom (Body r) of
           ((bufBody, err), rest) \<Rightarrow>
             (case err of
                Some e \<Rightarrow> (WriteHeader StatusBadRequest w, None)
              | None \<Rightarrow>
                  (case verifySignature (Header_Get (Header r) ''X-Hub-Signature'')
                          (Secret ws) bufBody of
                     Some e \<Rightarrow> (WriteHeader StatusForbidden w, None)
                   | None \<Rightarrow>
                       (case Unmarshal bufBody of
                          Inl e \<Rightarrow> (WriteHeader StatusBadRequest w, None)
                        | Inr reqBody \<Rightarrow>
                            (case (case objectHandlers ws of
                                     None \<Rightarrow> None
                                   | Some m \<Rightarrow> m pattern) of
                               None \<Rightarrow> (WriteHeader StatusOK w, None)
                             | Some objectHandlerMap \<Rightarrow>
                                 (case objectHandlerMap (Object reqBody) of
                                    None \<Rightarrow> (WriteHeader StatusOK w, None)
                                  | Some handler \<Rightarrow>
                                      (case handler reqBody of
                                         Some e \<Rightarrow>
                                           (WriteHeader StatusBadRequest w, Some (handler, reqBody))
                                       | None \<Rightarrow>
                                           (WriteHeader StatusOK w, Some (handler, reqBody)))))))))
      else (WriteHeader StatusForbidden w, None))"

section \<open>Example requests\<close>

text \<open>
  The inputs of the examples below: a handshake request; an event that carries the
  object \<^verbatim>\<open>page\<close> and is signed with the secret \<^verbatim>\<open>secret\<close>; the same event with a signature
  that does not match; a parser that decodes this one event and rejects every other
  input, the empty one among them, as \<^verbatim>\<open>json.Unmarshal\<close> does; and two object
  handlers, one that fails and one that succeeds.
\<close>

definition handshake :: Request where
  "handshake =
     \<lparr>Method = ''GET'', Header = Map.empty,
      Form = Some [''hub.mode'' \<mapsto> [''subscribe''], ''hub.verify_token'' \<mapsto> [''token''],
                   ''hub.challenge'' \<mapsto> [''xyz'']],
      Body = \<lparr>unread = [], failure = None\<rparr>\<rparr>"

definition pageEvent :: string where
  \<open>pageEvent = ''{"object":"page"}''\<close>

definition signedPost :: Request where
  "signedPost =
     \<lparr>Method = ''POST'',
      Header = [''X-Hub-Signature'' \<mapsto> [''sha1=9e7792066b2453499f6a20131335b72f597f0e54'']],
      Form = None,
      Body = \<lparr>unread = pageEvent, failure = None\<rparr>\<rparr>"

definition forgedPost :: Request where
  "forgedPost =
     \<lparr>Method = ''POST'',
      Header = [''X-Hub-Signature'' \<mapsto> [''sha1=0000000000000000000000000000000000000000'']],
      Form = None,
      Body = \<lparr>unread = pageEvent, failure = None\<rparr>\<rparr>"

definition decodePage :: "unit Unmarshal" where
  "decodePage bs =
     (if bs = pageEvent then Inr \<lparr>Object = ''page'', Entry = ()\<rparr>
      else Inl (errors_New ''unexpected end of JSON input''))"

definition failingHandler :: "unit ObjectHandler" where
  "failingHandler rb = Some (errors_New ''handler failed'')"

definition acceptingHandler :: "unit ObjectHandler" where
  "acceptingHandler rb = None"

section \<open>Facts about the library functions\<close>

subsection \<open>strings.Split\<close>

lemma Split_not_Nil: "Split s c \<noteq> []"
  by (induction s) (auto split: list.splits)

lemma Split_no_sep: "c \<notin> set s \<Longrightarrow> Split s c = [s]"
  by (induction s) auto

lemma Split_append_sep: "c \<notin> set p \<Longrightarrow> Split (p @ c # r) c = p # Split r c"
  by (induction p) auto

lemma hd_Split: "hd (Split s c) = takeWhile (\<lambda>x. x \<noteq> c) s"
  by (induction s) (auto split: list.splits simp: Split_not_Nil)

lemma length_Split: "length (Split s c) = Suc (count_list s c)"
  by (induction s) (auto split: list.splits)

lemma length_Split_less_2: "length (Split s c) < 2 \<longleftrightarrow> c \<notin> set s"
  by (simp add: length_Split count_list_0_iff)

lemma Split_second:
  assumes "c \<in> set s"
  shows "Split s c ! 1 = takeWhile (\<lambda>x. x \<noteq> c) (tl (dropWhile (\<lambda>x. x \<noteq> c) s))"
proof -
  let ?p = "takeWhile (\<lambda>x. x \<noteq> c) s" and ?d = "dropWhile (\<lambda>x. x \<noteq> c) s"
  from assms have "?d \<noteq> []" by (auto simp: dropWhile_eq_Nil_conv)
  moreover have "hd ?d = c" using \<open>?d \<noteq> []\<close> hd_dropWhile [of "\<lambda>x. x \<noteq> c" s] by auto
  ultimately have d: "?d = c # tl ?d" by (cases ?d) auto
  have "s = ?p @ c # tl ?d" using d takeWhile_dropWhile_id [of "\<lambda>x. x \<noteq> c" s] by metis
  moreover have "c \<notin> set ?p" by (auto dest: set_takeWhileD)
  ultimately have "Split s c = ?p # Split (tl ?d) c" using Split_append_sep by metis
  then have "Split s c ! 1 = Split (tl ?d) c ! 0" by simp
  also have "\<dots> = hd (Split (tl ?d) c)" by (simp add: hd_conv_nth Split_not_Nil)
  finally show ?thesis by (simp add: hd_Split)
qed

subsection \<open>The hexadecimal digest has no separator in it\<close>

lemma hexdigit_not_eq: "n < 16 \<Longrightarrow> hexdigit n \<noteq> CHR ''=''"
proof -
  assume "n < 16"
  then have "hexdigit n \<in> set ''0123456789abcdef''"
    unfolding hexdigit_def by (intro nth_mem) simp
  then show ?thesis by auto
qed

lemma EncodeToString_no_eq:
  "\<forall>b\<in>set bs. b < 256 \<Longrightarrow> CHR ''='' \<notin> set (EncodeToString bs)"
proof -
  assume bs: "\<forall>b\<in>set bs. b < 256"
  have "hexdigit (drop_bit 4 b) \<noteq> CHR ''=''" if "b \<in> set bs" for b
  proof -
    from that bs have "b < 256" by simp
    then have "drop_bit 4 b < 16" by (simp add: drop_bit_eq_div)
    then show ?thesis by (rule hexdigit_not_eq)
  qed
  moreover have "hexdigit (b AND 0x0f) \<noteq> CHR ''=''" for b :: nat
  proof -
    have "b AND 15 = take_bit 4 b" by (simp add: take_bit_eq_mask mask_eq_exp_minus_1)
    moreover have "take_bit 4 b < 16" using take_bit_nat_less_exp [of 4 b] by simp
    ultimately show ?thesis by (simp add: hexdigit_not_eq)
  qed
  ultimately show ?thesis by (fastforce simp: EncodeToString_def)
qed

lemma sha1_Sum_bytes: "\<forall>b\<in>set (sha1_Sum m). b < 256"
proof -
  have "take_bit 8 x < 256" for x :: nat
    using take_bit_nat_less_exp [of 8 x] by simp
  then show ?thesis
    by (auto simp: sha1_Sum_def putUint32_def split: prod.splits)
qed

lemma length_sha1_Sum: "length (sha1_Sum m) = 20"
  by (simp add: sha1_Sum_def putUint32_def split: prod.splits)

lemma hmac_sha1_bytes: "\<forall>b\<in>set (hmac_sha1 key m). b < 256"
  by (simp add: hmac_sha1_def Let_def sha1_Sum_bytes)

lemma expectedHash_no_eq: "CHR ''='' \<notin> set (expectedHash secret payload)"
  unfolding expectedHash_def by (rule EncodeToString_no_eq) (rule hmac_sha1_bytes)

lemma length_expectedHash: "length (expectedHash secret payload) = 40"
  by (simp add: expectedHash_def EncodeToString_def hmac_sha1_def Let_def length_sha1_Sum
      length_concat comp_def sum_list_triv)

subsection \<open>Test vectors\<close>

text \<open>
  The digest of \<^verbatim>\<open>abc\<close> is the one FIPS 180-4 gives, and the HMAC of the example event
  under the key \<^verbatim>\<open>secret\<close> the one Go computes. Both are evaluated by rewriting.
\<close>

lemma replicate_unfold: "replicate n x = (if n = 0 then [] else x # replicate (n - 1) x)"
  by (cases n) simp_all

lemmas sha1_eval = bytes_def EncodeToString_def hexdigit_def
  sha1_Sum_def padding_def putUint32_def putUint64_def blocks.simps schedule.simps rotl_def
  replicate_unfold numeral_2_eq_2 [symmetric]

lemma sha1_Sum_abc:
  "EncodeToString (sha1_Sum (bytes ''abc'')) = ''a9993e364706816aba3e25717850c26c9cd0d89d''"
  by (simp add: sha1_eval del: replicate.simps)

lemma expectedHash_page_event:
  "expectedHash ''secret'' pageEvent = ''9e7792066b2453499f6a20131335b72f597f0e54''"
  unfolding expectedHash_def hmac_sha1_def Let_def pageEvent_def
  by (simp add: sha1_eval del: replicate.simps)

section \<open>Signature verification\<close>

text \<open>
  What \<^const>\<open>verifySignature\<close> computes, case by case. The hash it compares is the second
  element of the split header: what stands between the first \<^verbatim>\<open>=\<close> and the next one, or
  the end of the header.
\<close>

lemma verifySignature_cases:
  "verifySignature sig secret payload =
     (if sig = [] then Some MissingSignature
      else if CHR ''='' \<notin> set sig then Some MalformedSignature
      else if takeWhile (\<lambda>c. c \<noteq> CHR ''='') (tl (dropWhile (\<lambda>c. c \<noteq> CHR ''='') sig))
                \<noteq> expectedHash secret payload
           then Some SignatureMismatch
      else None)"
proof (cases "CHR ''='' \<in> set sig")
  case True
  then have "sig \<noteq> []" by auto
  moreover from True have "\<not> length (Split sig CHR ''='') < 2"
    by (simp add: length_Split_less_2)
  ultimately show ?thesis
    using True Split_second [OF True]
    by (simp add: verifySignature_def Let_def SignatureMismatch_def)
next
  case False
  then have "length (Split sig CHR ''='') < 2"
    by (simp add: length_Split_less_2)
  with False show ?thesis
    by (simp add: verifySignature_def Let_def MissingSignature_def MalformedSignature_def)
qed

lemma verifySignature_tagged:
  assumes "CHR ''='' \<notin> set p"
  shows "verifySignature (p @ ''='' @ expectedHash secret payload) secret payload = None"
proof -
  let ?h = "expectedHash secret payload"
  have "Split (p @ CHR ''='' # ?h) CHR ''='' = p # Split ?h CHR ''=''"
    using assms by (rule Split_append_sep)
  also have "Split ?h CHR ''='' = [?h]"
    by (rule Split_no_sep) (rule expectedHash_no_eq)
  finally show ?thesis by (simp add: verifySignature_def)
qed

text \<open>
  C2, as the claim states it: for a header with \<^verbatim>\<open>=\<close> in it, verification succeeds exactly
  when everything after the first \<^verbatim>\<open>=\<close> equals the hex-encoded HMAC-SHA1 of the body. It
  does not hold: the header \<^verbatim>\<open>sha1=\<close> followed by the digest and \<^verbatim>\<open>=x\<close> verifies, and what
  follows its first \<^verbatim>\<open>=\<close> is not the digest.
\<close>

theorem verifySignature_whole_remainder_counterexample:
  "verifySignature (''sha1='' @ ''9e7792066b2453499f6a20131335b72f597f0e54=x'') ''secret'' pageEvent
     = None \<and>
   ''9e7792066b2453499f6a20131335b72f597f0e54=x'' \<noteq> expectedHash ''secret'' pageEvent"
  by (simp add: verifySignature_cases expectedHash_page_event)

text \<open>
  C2, amended: for every header with at least one \<^verbatim>\<open>=\<close> in it, verification compares what
  stands between the first \<^verbatim>\<open>=\<close> and the next \<^verbatim>\<open>=\<close> (or the end of the header, when there
  is no second one) byte for byte with the hex-encoded HMAC-SHA1 of the raw body keyed by
  the secret, and succeeds exactly when they are equal.
\<close>

theorem verifySignature_second_element:
  "CHR ''='' \<in> set sig \<Longrightarrow>
     (verifySignature sig S B = None \<longleftrightarrow>
        takeWhile (\<lambda>c. c \<noteq> CHR ''='') (tl (dropWhile (\<lambda>c. c \<noteq> CHR ''='') sig))
          = expectedHash S B)"
  by (auto simp: verifySignature_cases)

theorem verifySignature_second_element_witness:
  "CHR ''='' \<in> set ''sha1=9e7792066b2453499f6a20131335b72f597f0e54=x'' \<and>
   takeWhile (\<lambda>c. c \<noteq> CHR ''='')
     (tl (dropWhile (\<lambda>c. c \<noteq> CHR ''='') ''sha1=9e7792066b2453499f6a20131335b72f597f0e54=x''))
     = ''9e7792066b2453499f6a20131335b72f597f0e54'' \<and>
   verifySignature ''sha1=9e7792066b2453499f6a20131335b72f597f0e54=x'' ''secret'' pageEvent = None"
  using verifySignature_second_element
    [of "''sha1=9e7792066b2453499f6a20131335b72f597f0e54=x''" "''secret''" pageEvent]
  by (simp add: expectedHash_page_event)

text \<open>
  C3. Round trip: for every body \<open>B\<close> and secret \<open>S\<close>, the header \<^verbatim>\<open>sha1=\<close> followed by the
  hex-encoded HMAC-SHA1 of \<open>B\<close> keyed by \<open>S\<close> verifies against \<open>S\<close> and \<open>B\<close>.
\<close>

theorem verifySignature_roundtrip:
  "verifySignature (''sha1='' @ expectedHash S B) S B = None"
  using verifySignature_tagged [of "''sha1''" S B] by simp

text \<open>
  C8. Verification fails with the error MissingSignature exactly when the header is the
  empty string, and with the error MalformedSignature when the header is not empty and
  has no \<^verbatim>\<open>=\<close> in it (and only then).
\<close>

theorem verifySignature_missing_malformed:
  "(verifySignature sig S B = Some MissingSignature \<longleftrightarrow> sig = []) \<and>
   (verifySignature sig S B = Some MalformedSignature \<longleftrightarrow> sig \<noteq> [] \<and> CHR ''='' \<notin> set sig)"
  by (simp add: verifySignature_cases MissingSignature_def MalformedSignature_def
      SignatureMismatch_def)

text \<open>
  C9. The algorithm tag of the header is never checked: for every prefix \<open>p\<close> without
  \<^verbatim>\<open>=\<close>, the header \<open>p\<close>, \<^verbatim>\<open>=\<close>, hex-encoded HMAC-SHA1 of the body verifies; so does
  \<^verbatim>\<open>md5=\<close> followed by the right SHA-1 digest.
\<close>

theorem verifySignature_ignores_algorithm:
  "CHR ''='' \<notin> set p \<Longrightarrow> verifySignature (p @ ''='' @ expectedHash S B) S B = None"
  by (rule verifySignature_tagged)

theorem verifySignature_ignores_algorithm_witness:
  "CHR ''='' \<notin> set ''md5'' \<and>
   verifySignature (''md5='' @ expectedHash ''secret'' ''body'') ''secret'' ''body'' = None"
  using verifySignature_ignores_algorithm [of "''md5''" "''secret''" "''body''"] by simp

section \<open>The handler functions\<close>

subsection \<open>What they compute\<close>

lemmas writer_defs = WriteHeader_def Write_def StatusCode_def newResponseWriter_def

lemma rootHandlerFunc_GET:
  assumes "Method r = ''GET''" and "Form r = Some form"
  shows "rootHandlerFunc Unmarshal ws newResponseWriter r =
    (if FormValue form ''hub.mode'' = ''subscribe'' \<and>
        FormValue form ''hub.verify_token'' = VerificationToken ws
     then (\<lparr>status = Some 200, body = FormValue form ''hub.challenge''\<rparr>, None)
     else (\<lparr>status = Some 403, body = []\<rparr>, None))"
  using assms by (simp add: rootHandlerFunc_def writer_defs)

lemma webhookHandlerFunc_GET:
  assumes "Method r = ''GET''" and "Form r = Some form"
  shows "webhookHandlerFunc ws newResponseWriter r =
    (if FormValue form ''hub.mode'' = ''subscribe'' \<and>
        FormValue form ''hub.verify_token'' = VerificationToken ws
     then \<lparr>status = Some 200, body = FormValue form ''hub.challenge''\<rparr>
     else \<lparr>status = Some 403, body = []\<rparr>)"
  using assms by (simp add: webhookHandlerFunc_def writer_defs)

text \<open>
  A POST whose body could be read: \<^const>\<open>rootHandlerFunc\<close> verifies the signature over the
  bytes it has read and then hands the parser what a second read of the body returns,
  which is nothing.
\<close>

lemma rootHandlerFunc_POST:
  assumes "Method r = ''POST''" and "failure (Body r) = None"
  shows "rootHandlerFunc Unmarshal ws newResponseWriter r =
    (case verifySignature (Header_Get (Header r) ''X-Hub-Signature'') (Secret ws)
            (unread (Body r)) of
       Some e \<Rightarrow> (\<lparr>status = Some 403, body = []\<rparr>, None)
     | None \<Rightarrow>
         (case Unmarshal [] of
            Inl e \<Rightarrow> (\<lparr>status = Some 400, body = []\<rparr>, None)
          | Inr rb \<Rightarrow>
              (case (case objectHandlers ws of None \<Rightarrow> None | Some m \<Rightarrow> m (Object rb)) of
                 None \<Rightarrow> (\<lparr>status = Some 200, body = []\<rparr>, None)
               | Some handler \<Rightarrow>
                   (\<lparr>status = Some (if handler rb = None then 200 else 400), body = []\<rparr>,
                    Some (handler, rb)))))"
  using assms
  by (simp add: rootHandlerFunc_def parsePostRequestBody_def ReadFrom_def writer_defs
      split: option.splits sum.splits)

lemma getObjectHandlerFunc_POST:
  assumes "Method r = ''POST''" and "failure (Body r) = None"
  shows "getObjectHandlerFunc Unmarshal ws pattern newResponseWriter r =
    (case verifySignature (Header_Get (Header r) ''X-Hub-Signature'') (Secret ws)
            (unread (Body r)) of
       Some e \<Rightarrow> (\<lparr>status = Some 403, body = []\<rparr>, None)
     | None \<Rightarrow>
         (case Unmarshal (unread (Body r)) of
            Inl e \<Rightarrow> (\<lparr>status = Some 400, body = []\<rparr>, None)
          | Inr rb \<Rightarrow>
              (case (case objectHandlers ws of None \<Rightarrow> None | Some m \<Rightarrow> m pattern) of
                 None \<Rightarrow> (\<lparr>status = Some 200, body = []\<rparr>, None)
               | Some objectHandlerMap \<Rightarrow>
                   (case objectHandlerMap (Object rb) of
                      None \<Rightarrow> (\<lparr>status = Some 200, body = []\<rparr>, None)
                    | Some handler \<Rightarrow>
                        (\<lparr>status = Some (if handler rb = None then 200 else 400), body = []\<rparr>,
                         Some (handler, rb))))))"
  using assms
  by (simp add: getObjectHandlerFunc_def ReadFrom_def writer_defs
      split: option.splits sum.splits)

lemma rootHandlerFunc_invoked:
  assumes "snd (rootHandlerFunc Unmarshal ws newResponseWriter r) = Some (h, rb)"
  shows "Method r = ''POST'' \<and> failure (Body r) = None \<and>
         verifySignature (Header_Get (Header r) ''X-Hub-Signature'') (Secret ws)
            (unread (Body r)) = None \<and>
         Unmarshal [] = Inr rb \<and>
         (\<exists>m. objectHandlers ws = Some m \<and> m (Object rb) = Some h)"
  using assms
  by (auto simp: rootHandlerFunc_def parsePostRequestBody_def ReadFrom_def
      split: if_splits option.splits sum.splits)

lemma getObjectHandlerFunc_invoked:
  assumes "snd (getObjectHandlerFunc Unmarshal ws pattern newResponseWriter r) = Some (h, rb)"
  shows "Method r = ''POST'' \<and> failure (Body r) = None \<and>
         verifySignature (Header_Get (Header r) ''X-Hub-Signature'') (Secret ws)
            (unread (Body r)) = None \<and>
         Unmarshal (unread (Body r)) = Inr rb \<and>
         (\<exists>m hs. objectHandlers ws = Some m \<and> m pattern = Some hs \<and> hs (Object rb) = Some h)"
  using assms
  by (auto simp: getObjectHandlerFunc_def ReadFrom_def
      split: if_splits option.splits sum.splits)

lemma HandleObjectFunc_last_wins:
  "HandleObjectFunc (HandleObjectFunc ws object h1) object h2 = HandleObjectFunc ws object h2"
  by (simp add: HandleObjectFunc_def Let_def)

lemma HandleObjectFunc_lookup:
  "\<exists>m. objectHandlers (HandleObjectFunc ws object h) = Some m \<and> m object = Some h"
  by (simp add: HandleObjectFunc_def Let_def)

lemma HandleObjectFunc_pattern_last_wins:
  "HandleObjectFunc_pattern (HandleObjectFunc_pattern ws pattern object h1) pattern object h2 =
     HandleObjectFunc_pattern ws pattern object h2"
  by (simp add: HandleObjectFunc_pattern_def Let_def)

lemma HandleObjectFunc_pattern_lookup:
  "\<exists>m hs. objectHandlers (HandleObjectFunc_pattern ws pattern object h) = Some m \<and>
      m pattern = Some hs \<and> hs object = Some h"
  by (simp add: HandleObjectFunc_pattern_def Let_def)

lemma HandleObjectFunc_Secret [simp]: "Secret (HandleObjectFunc ws object h) = Secret ws"
  by (simp add: HandleObjectFunc_def Let_def)

lemma HandleObjectFunc_pattern_Secret [simp]:
  "Secret (HandleObjectFunc_pattern ws pattern object h) = Secret ws"
  by (simp add: HandleObjectFunc_pattern_def Let_def)

lemma NewServer_fields [simp]:
  "Secret (NewServer secret accessToken verificationToken) = secret"
  "VerificationToken (NewServer secret accessToken verificationToken) = verificationToken"
  "objectHandlers (NewServer secret accessToken verificationToken) = None"
  by (simp_all add: NewServer_def)

lemma verify_signedPost:
  "verifySignature (Header_Get (Header signedPost) ''X-Hub-Signature'') ''secret''
     (unread (Body signedPost)) = None"
  by (simp add: signedPost_def Header_Get_def verifySignature_cases expectedHash_page_event)

lemma verify_forgedPost:
  "verifySignature (Header_Get (Header forgedPost) ''X-Hub-Signature'') ''secret''
     (unread (Body forgedPost)) = Some SignatureMismatch"
  by (simp add: forgedPost_def Header_Get_def verifySignature_cases expectedHash_page_event)

section \<open>The handshake\<close>

text \<open>
  C4. For every handshake GET whose query parses, in \<^const>\<open>rootHandlerFunc\<close> and in
  \<^const>\<open>webhookHandlerFunc\<close>: if \<^verbatim>\<open>hub.mode\<close> is \<^verbatim>\<open>subscribe\<close> and \<^verbatim>\<open>hub.verify_token\<close> equals the
  VerificationToken of the server, the response has status 200 and its body is the
  value of \<^verbatim>\<open>hub.challenge\<close>, unchanged; in every other case the response has status 403
  and an empty body.
\<close>

theorem handshake_response:
  assumes "Method r = ''GET''" and "Form r = Some form"
  shows "(let w = fst (rootHandlerFunc Unmarshal ws newResponseWriter r)
          in if FormValue form ''hub.mode'' = ''subscribe'' \<and>
                FormValue form ''hub.verify_token'' = VerificationToken ws
             then StatusCode w = 200 \<and> body w = FormValue form ''hub.challenge''
             else StatusCode w = 403 \<and> body w = []) \<and>
         (let w = webhookHandlerFunc ws' newResponseWriter r
          in if FormValue form ''hub.mode'' = ''subscribe'' \<and>
                FormValue form ''hub.verify_token'' = VerificationToken ws'
             then StatusCode w = 200 \<and> body w = FormValue form ''hub.challenge''
             else StatusCode w = 403 \<and> body w = [])"
  by (simp add: rootHandlerFunc_GET [OF assms] webhookHandlerFunc_GET [OF assms] StatusCode_def)

text \<open>
  The example handshake carries the token \<^verbatim>\<open>token\<close> and the challenge \<^verbatim>\<open>xyz\<close>: a server
  configured with this token answers 200 and \<^verbatim>\<open>xyz\<close>, one configured with another token
  answers 403 and nothing.
\<close>

theorem handshake_response_witness:
  "Method handshake = ''GET'' \<and>
   Form handshake = Some [''hub.mode'' \<mapsto> [''subscribe''], ''hub.verify_token'' \<mapsto> [''token''],
                          ''hub.challenge'' \<mapsto> [''xyz'']] \<and>
   StatusCode (fst (rootHandlerFunc decodePage (NewServer ''secret'' ''access'' ''token'')
      newResponseWriter handshake)) = 200 \<and>
   body (fst (rootHandlerFunc decodePage (NewServer ''secret'' ''access'' ''token'')
      newResponseWriter handshake)) = ''xyz'' \<and>
   StatusCode (webhookHandlerFunc
      (NewServer ''secret'' ''access'' ''other'' :: unit PatternHandlers Server)
      newResponseWriter handshake) = 403 \<and>
   body (webhookHandlerFunc
      (NewServer ''secret'' ''access'' ''other'' :: unit PatternHandlers Server)
      newResponseWriter handshake) = []"
  using handshake_response [of handshake
      "[''hub.mode'' \<mapsto> [''subscribe''], ''hub.verify_token'' \<mapsto> [''token''],
        ''hub.challenge'' \<mapsto> [''xyz'']]"
      decodePage "NewServer ''secret'' ''access'' ''token''"
      "NewServer ''secret'' ''access'' ''other'' :: unit PatternHandlers Server"]
  by (simp add: handshake_def FormValue_def Let_def)

text \<open>
  C10. A query parameter that is absent counts as the empty string: on a server whose
  VerificationToken is empty, a GET with \<^verbatim>\<open>hub.mode=subscribe\<close> and no \<^verbatim>\<open>hub.verify_token\<close>
  at all is answered with status 200 and the value of \<^verbatim>\<open>hub.challenge\<close>, which is empty
  when that parameter is absent too.
\<close>

theorem handshake_absent_token:
  assumes "Method r = ''GET''" and "Form r = Some form"
    and "FormValue form ''hub.mode'' = ''subscribe''"
    and "form ''hub.verify_token'' = None"
    and "VerificationToken ws = []" and "VerificationToken ws' = []"
  shows "StatusCode (fst (rootHandlerFunc Unmarshal ws newResponseWriter r)) = 200 \<and>
         body (fst (rootHandlerFunc Unmarshal ws newResponseWriter r)) =
           (case form ''hub.challenge'' of None \<Rightarrow> [] | Some [] \<Rightarrow> [] | Some (v # vs) \<Rightarrow> v) \<and>
         StatusCode (webhookHandlerFunc ws' newResponseWriter r) = 200 \<and>
         body (webhookHandlerFunc ws' newResponseWriter r) =
           (case form ''hub.challenge'' of None \<Rightarrow> [] | Some [] \<Rightarrow> [] | Some (v # vs) \<Rightarrow> v)"
proof -
  from assms(4) have "FormValue form ''hub.verify_token'' = []"
    by (simp add: FormValue_def)
  with assms show ?thesis
    by (simp add: rootHandlerFunc_GET [OF assms(1,2)] webhookHandlerFunc_GET [OF assms(1,2)]
        StatusCode_def) (simp add: FormValue_def)
qed

text \<open>
  A server made by \<^const>\<open>NewServer\<close> with the empty token, and a request whose only
  parameter is \<^verbatim>\<open>hub.mode=subscribe\<close>.
\<close>

theorem handshake_absent_token_witness:
  "VerificationToken (NewServer ''secret'' ''access'' [] :: unit ObjectHandlers Server) = [] \<and>
   StatusCode (fst (rootHandlerFunc decodePage (NewServer ''secret'' ''access'' [])
      newResponseWriter
      \<lparr>Method = ''GET'', Header = Map.empty, Form = Some [''hub.mode'' \<mapsto> [''subscribe'']],
       Body = \<lparr>unread = [], failure = None\<rparr>\<rparr>)) = 200 \<and>
   body (fst (rootHandlerFunc decodePage (NewServer ''secret'' ''access'' [])
      newResponseWriter
      \<lparr>Method = ''GET'', Header = Map.empty, Form = Some [''hub.mode'' \<mapsto> [''subscribe'']],
       Body = \<lparr>unread = [], failure = None\<rparr>\<rparr>)) = [] \<and>
   StatusCode (webhookHandlerFunc
      (NewServer ''secret'' ''access'' [] :: unit PatternHandlers Server) newResponseWriter
      \<lparr>Method = ''GET'', Header = Map.empty, Form = Some [''hub.mode'' \<mapsto> [''subscribe'']],
       Body = \<lparr>unread = [], failure = None\<rparr>\<rparr>) = 200 \<and>
   body (webhookHandlerFunc
      (NewServer ''secret'' ''access'' [] :: unit PatternHandlers Server) newResponseWriter
      \<lparr>Method = ''GET'', Header = Map.empty, Form = Some [''hub.mode'' \<mapsto> [''subscribe'']],
       Body = \<lparr>unread = [], failure = None\<rparr>\<rparr>) = []"
  using handshake_absent_token [of
      "\<lparr>Method = ''GET'', Header = Map.empty, Form = Some [''hub.mode'' \<mapsto> [''subscribe'']],
        Body = \<lparr>unread = [], failure = None\<rparr>\<rparr>"
      "[''hub.mode'' \<mapsto> [''subscribe'']]"
      "NewServer ''secret'' ''access'' []"
      "NewServer ''secret'' ''access'' [] :: unit PatternHandlers Server" decodePage]
  by (simp add: FormValue_def)

section \<open>Events\<close>

text \<open>
  C5. For every POST whose signature verification fails, with whichever of the three
  errors, the response has status 403, whatever the body is and whatever the parser
  would make of it; the response is the same for every error, so it tells nothing about
  which one it was. This holds in \<^const>\<open>rootHandlerFunc\<close> and in \<^const>\<open>getObjectHandlerFunc\<close>.
\<close>

theorem invalid_signature_forbidden:
  assumes "Method r = ''POST''" and "failure (Body r) = None"
    and "verifySignature (Header_Get (Header r) ''X-Hub-Signature'') (Secret ws)
           (unread (Body r)) = Some e"
    and "Secret ws' = Secret ws"
  shows "rootHandlerFunc Unmarshal ws newResponseWriter r =
           (\<lparr>status = Some 403, body = []\<rparr>, None) \<and>
         getObjectHandlerFunc Unmarshal' ws' pattern newResponseWriter r =
           (\<lparr>status = Some 403, body = []\<rparr>, None)"
  using assms(3,4)
  by (simp add: rootHandlerFunc_POST [OF assms(1,2)] getObjectHandlerFunc_POST [OF assms(1,2)])

theorem invalid_signature_forbidden_witness:
  "Method forgedPost = ''POST'' \<and> failure (Body forgedPost) = None \<and>
   verifySignature (Header_Get (Header forgedPost) ''X-Hub-Signature'') ''secret''
     (unread (Body forgedPost)) = Some SignatureMismatch \<and>
   rootHandlerFunc decodePage (NewServer ''secret'' ''access'' ''token'') newResponseWriter
     forgedPost = (\<lparr>status = Some 403, body = []\<rparr>, None) \<and>
   getObjectHandlerFunc decodePage (NewServer ''secret'' ''access'' ''token'') ''/callback''
     newResponseWriter forgedPost = (\<lparr>status = Some 403, body = []\<rparr>, None)"
  using invalid_signature_forbidden [of forgedPost "NewServer ''secret'' ''access'' ''token''"
      SignatureMismatch "NewServer ''secret'' ''access'' ''token''" decodePage decodePage
      "''/callback''"]
    verify_forgedPost
  by simp (simp add: forgedPost_def)

subsection \<open>The body is read twice in server.go\<close>

text \<open>
  C1. The claim: the envelope is decoded from the bytes that were buffered for the
  verification of the signature, so a POST with a valid signature and a well-formed
  envelope whose object has no handler is answered 200, and no handler is called. In
  \<^const>\<open>getObjectHandlerFunc\<close> it is so. \<^const>\<open>rootHandlerFunc\<close> calls \<^const>\<open>parsePostRequestBody\<close>
  instead, which reads the body again; the first read has left nothing, and a parser
  that rejects the empty input, as \<^verbatim>\<open>json.Unmarshal\<close> does, makes the answer 400.
\<close>

theorem rootHandlerFunc_parses_drained_body:
  assumes "Method r = ''POST''" and "failure (Body r) = None"
    and "verifySignature (Header_Get (Header r) ''X-Hub-Signature'') (Secret ws)
           (unread (Body r)) = None"
    and "Unmarshal (unread (Body r)) = Inr rb"
    and "(case objectHandlers ws of None \<Rightarrow> None | Some m \<Rightarrow> m (Object rb)) = None"
    and "Unmarshal [] = Inl e"
  shows "rootHandlerFunc Unmarshal ws newResponseWriter r =
           (\<lparr>status = Some 400, body = []\<rparr>, None)"
  using assms(3,6) by (simp add: rootHandlerFunc_POST [OF assms(1,2)])

theorem rootHandlerFunc_parses_drained_body_witness:
  "decodePage (unread (Body signedPost)) = Inr \<lparr>Object = ''page'', Entry = ()\<rparr> \<and>
   decodePage [] = Inl (errors_New ''unexpected end of JSON input'') \<and>
   rootHandlerFunc decodePage (NewServer ''secret'' ''access'' ''token'') newResponseWriter
     signedPost = (\<lparr>status = Some 400, body = []\<rparr>, None)"
proof -
  have v: "verifySignature (Header_Get (Header signedPost) ''X-Hub-Signature'')
      (Secret (NewServer ''secret'' ''access'' ''token'' :: unit ObjectHandlers Server))
      (unread (Body signedPost)) = None"
    using verify_signedPost by simp
  have d: "decodePage (unread (Body signedPost)) = Inr \<lparr>Object = ''page'', Entry = ()\<rparr>"
    by (simp add: decodePage_def signedPost_def)
  have n: "decodePage [] = Inl (errors_New ''unexpected end of JSON input'')"
    by (simp add: decodePage_def pageEvent_def)
  have "rootHandlerFunc decodePage (NewServer ''secret'' ''access'' ''token'') newResponseWriter
     signedPost = (\<lparr>status = Some 400, body = []\<rparr>, None)"
    by (rule rootHandlerFunc_parses_drained_body [OF _ _ v d _ n])
      (simp_all add: signedPost_def)
  with d n show ?thesis by simp
qed

text \<open>The sibling decodes the buffer it has verified, and answers 200.\<close>

lemma getObjectHandlerFunc_unregistered:
  assumes "Method r = ''POST''" and "failure (Body r) = None"
    and "verifySignature (Header_Get (Header r) ''X-Hub-Signature'') (Secret ws)
           (unread (Body r)) = None"
    and "Unmarshal (unread (Body r)) = Inr rb"
    and "(case objectHandlers ws of None \<Rightarrow> None
          | Some m \<Rightarrow> (case m pattern of None \<Rightarrow> None | Some hs \<Rightarrow> hs (Object rb))) = None"
  shows "getObjectHandlerFunc Unmarshal ws pattern newResponseWriter r =
           (\<lparr>status = Some 200, body = []\<rparr>, None)"
  using assms(3,4,5)
  by (auto simp: getObjectHandlerFunc_POST [OF assms(1,2)] split: option.splits)

lemma getObjectHandlerFunc_signedPost:
  "getObjectHandlerFunc decodePage (NewServer ''secret'' ''access'' ''token'') ''/callback''
     newResponseWriter signedPost = (\<lparr>status = Some 200, body = []\<rparr>, None)"
  by (rule getObjectHandlerFunc_unregistered [where rb = "\<lparr>Object = ''page'', Entry = ()\<rparr>"])
    (simp_all add: verify_signedPost, simp_all add: signedPost_def decodePage_def)

subsection \<open>Handlers that are registered\<close>

text \<open>
  In part\_000 a POST that reaches a registered handler is answered by the result of
  the handler alone: status 400 when it returns an error, status 200 when it returns
  none, and an empty body in both cases.
\<close>

lemma getObjectHandlerFunc_handler_result:
  assumes "snd (getObjectHandlerFunc Unmarshal ws pattern newResponseWriter r) = Some (h, rb)"
  shows "fst (getObjectHandlerFunc Unmarshal ws pattern newResponseWriter r) =
           \<lparr>status = Some (if h rb = None then 200 else 400), body = []\<rparr>"
proof -
  note i = getObjectHandlerFunc_invoked [OF assms]
  from i have p: "Method r = ''POST''" "failure (Body r) = None" by simp_all
  from i assms show ?thesis
    by (auto simp: getObjectHandlerFunc_POST [OF p])
qed

lemma getObjectHandlerFunc_registered:
  assumes "Method r = ''POST''" and "failure (Body r) = None"
    and "verifySignature (Header_Get (Header r) ''X-Hub-Signature'') (Secret ws)
           (unread (Body r)) = None"
    and "Unmarshal (unread (Body r)) = Inr rb"
    and "objectHandlers ws = Some m" and "m pattern = Some hs" and "hs (Object rb) = Some h"
  shows "getObjectHandlerFunc Unmarshal ws pattern newResponseWriter r =
           (\<lparr>status = Some (if h rb = None then 200 else 400), body = []\<rparr>, Some (h, rb))"
  using assms(3-7) by (simp add: getObjectHandlerFunc_POST [OF assms(1,2)])

lemma getObjectHandlerFunc_acceptingHandler:
  "getObjectHandlerFunc decodePage
      (HandleObjectFunc_pattern (NewServer ''secret'' ''access'' ''token'') ''/callback'' ''page''
         acceptingHandler)
      ''/callback'' newResponseWriter signedPost =
     (\<lparr>status = Some 200, body = []\<rparr>,
      Some (acceptingHandler, \<lparr>Object = ''page'', Entry = ()\<rparr>))"
proof -
  have p: "Method signedPost = ''POST''" "failure (Body signedPost) = None"
    by (simp_all add: signedPost_def)
  show ?thesis
    by (simp add: getObjectHandlerFunc_POST [OF p] verify_signedPost)
      (simp add: HandleObjectFunc_pattern_def Let_def decodePage_def signedPost_def
        acceptingHandler_def)
qed

lemma getObjectHandlerFunc_failingHandler:
  "getObjectHandlerFunc decodePage
      (HandleObjectFunc_pattern (NewServer ''secret'' ''access'' ''token'') ''/callback'' ''page''
         failingHandler)
      ''/callback'' newResponseWriter signedPost =
     (\<lparr>status = Some 400, body = []\<rparr>,
      Some (failingHandler, \<lparr>Object = ''page'', Entry = ()\<rparr>))"
proof -
  have p: "Method signedPost = ''POST''" "failure (Body signedPost) = None"
    by (simp_all add: signedPost_def)
  show ?thesis
    by (simp add: getObjectHandlerFunc_POST [OF p] verify_signedPost)
      (simp add: HandleObjectFunc_pattern_def Let_def decodePage_def signedPost_def
        failingHandler_def)
qed

text \<open>
  In server.go no POST reaches a handler when the parser rejects the empty input, as
  \<^verbatim>\<open>json.Unmarshal\<close> does: the envelope is decoded from the second read of the body.
\<close>

lemma rootHandlerFunc_calls_no_handler:
  "Unmarshal [] = Inl e \<Longrightarrow> snd (rootHandlerFunc Unmarshal ws w r) = None"
  by (simp add: rootHandlerFunc_def parsePostRequestBody_def ReadFrom_def
      split: option.splits sum.splits)

text \<open>
  C7. The claim: for every POST that reaches a registered handler, the response has
  status 400 if the handler returns an error and status 200 if it returns none, and
  nothing of the error is in its body; only the status differs.
  \<^const>\<open>getObjectHandlerFunc\<close> does so (\<open>getObjectHandlerFunc_handler_result\<close>,
  \<open>getObjectHandlerFunc_registered\<close>). \<^const>\<open>rootHandlerFunc\<close> does not: a POST with a valid
  signature and a well-formed envelope, for whose object a handler is registered that
  would return no error, is answered 400, and the handler is not called, for the reason
  given under C1.
\<close>

theorem rootHandlerFunc_registered_handler_400:
  assumes "Method r = ''POST''" and "failure (Body r) = None"
    and "verifySignature (Header_Get (Header r) ''X-Hub-Signature'') (Secret ws)
           (unread (Body r)) = None"
    and "Unmarshal (unread (Body r)) = Inr rb"
    and "(case objectHandlers ws of None \<Rightarrow> None | Some m \<Rightarrow> m (Object rb)) = Some h"
    and "h rb = None"
    and "Unmarshal [] = Inl e"
  shows "rootHandlerFunc Unmarshal ws newResponseWriter r =
           (\<lparr>status = Some 400, body = []\<rparr>, None)"
  using assms(3,7) by (simp add: rootHandlerFunc_POST [OF assms(1,2)])

theorem rootHandlerFunc_registered_handler_400_witness:
  "(case objectHandlers
           (HandleObjectFunc (NewServer ''secret'' ''access'' ''token'') ''page'' acceptingHandler) of
      None \<Rightarrow> None | Some m \<Rightarrow> m ''page'') = Some acceptingHandler \<and>
   acceptingHandler \<lparr>Object = ''page'', Entry = ()\<rparr> = None \<and>
   decodePage (unread (Body signedPost)) = Inr \<lparr>Object = ''page'', Entry = ()\<rparr> \<and>
   decodePage [] = Inl (errors_New ''unexpected end of JSON input'') \<and>
   rootHandlerFunc decodePage
     (HandleObjectFunc (NewServer ''secret'' ''access'' ''token'') ''page'' acceptingHandler)
     newResponseWriter signedPost = (\<lparr>status = Some 400, body = []\<rparr>, None)"
proof -
  let ?ws = "HandleObjectFunc (NewServer ''secret'' ''access'' ''token'') ''page'' acceptingHandler"
  have p: "Method signedPost = ''POST''" "failure (Body signedPost) = None"
    by (simp_all add: signedPost_def)
  have v: "verifySignature (Header_Get (Header signedPost) ''X-Hub-Signature'')
      (Secret ?ws) (unread (Body signedPost)) = None"
    using verify_signedPost by simp
  have d: "decodePage (unread (Body signedPost)) = Inr \<lparr>Object = ''page'', Entry = ()\<rparr>"
    by (simp add: decodePage_def signedPost_def)
  have l: "(case objectHandlers ?ws of None \<Rightarrow> None
            | Some m \<Rightarrow> m (Object \<lparr>Object = ''page'', Entry = ()\<rparr>)) = Some acceptingHandler"
    by (simp add: HandleObjectFunc_def)
  have a: "acceptingHandler \<lparr>Object = ''page'', Entry = ()\<rparr> = None"
    by (simp add: acceptingHandler_def)
  have n: "decodePage [] = Inl (errors_New ''unexpected end of JSON input'')"
    by (simp add: decodePage_def pageEvent_def)
  have l': "(case objectHandlers ?ws of None \<Rightarrow> None | Some m \<Rightarrow> m ''page'') =
      Some acceptingHandler"
    by (simp add: HandleObjectFunc_def)
  have r: "rootHandlerFunc decodePage ?ws newResponseWriter signedPost =
      (\<lparr>status = Some 400, body = []\<rparr>, None)"
    by (rule rootHandlerFunc_registered_handler_400 [OF p v d l a n])
  show ?thesis by (intro conjI l' a d n r)
qed

section \<open>The registry\<close>

text \<open>
  C6. The claim: registration never fails and the last one wins; after \<open>h1\<close> and then
  \<open>h2\<close> have been registered for an object, the registry maps the object to \<open>h2\<close> only,
  and \<open>h2\<close> is the callback that an event with this object calls. The registry is as
  claimed in both files (\<open>HandleObjectFunc_last_wins\<close>, \<open>HandleObjectFunc_pattern_last_wins\<close>)
  and \<^const>\<open>getObjectHandlerFunc\<close> calls \<open>h2\<close> (\<open>getObjectHandlerFunc_invokes_last_registered\<close>
  below). In server.go the event does not reach it: \<^const>\<open>rootHandlerFunc\<close> answers 400
  and calls no handler, for the reason given under C1.
\<close>

theorem rootHandlerFunc_skips_registered_handler:
  assumes "Method r = ''POST''" and "failure (Body r) = None"
    and "verifySignature (Header_Get (Header r) ''X-Hub-Signature'') (Secret ws)
           (unread (Body r)) = None"
    and "Unmarshal (unread (Body r)) = Inr rb" and "Object rb = object"
    and "Unmarshal [] = Inl e"
  shows "(case objectHandlers (HandleObjectFunc (HandleObjectFunc ws object h1) object h2) of
            None \<Rightarrow> None | Some m \<Rightarrow> m object) = Some h2 \<and>
         rootHandlerFunc Unmarshal (HandleObjectFunc (HandleObjectFunc ws object h1) object h2)
           newResponseWriter r = (\<lparr>status = Some 400, body = []\<rparr>, None)"
  using assms(3,6)
  by (simp add: rootHandlerFunc_POST [OF assms(1,2)]) (simp add: HandleObjectFunc_def)

theorem rootHandlerFunc_skips_registered_handler_witness:
  "(case objectHandlers
           (HandleObjectFunc
              (HandleObjectFunc (NewServer ''secret'' ''access'' ''token'') ''page'' failingHandler)
              ''page'' acceptingHandler) of
      None \<Rightarrow> None | Some m \<Rightarrow> m ''page'') = Some acceptingHandler \<and>
   rootHandlerFunc decodePage
     (HandleObjectFunc
        (HandleObjectFunc (NewServer ''secret'' ''access'' ''token'') ''page'' failingHandler)
        ''page'' acceptingHandler)
     newResponseWriter signedPost = (\<lparr>status = Some 400, body = []\<rparr>, None)"
proof -
  have p: "Method signedPost = ''POST''" "failure (Body signedPost) = None"
    by (simp_all add: signedPost_def)
  have v: "verifySignature (Header_Get (Header signedPost) ''X-Hub-Signature'')
      (Secret (NewServer ''secret'' ''access'' ''token'' :: unit ObjectHandlers Server))
      (unread (Body signedPost)) = None"
    using verify_signedPost by simp
  have d: "decodePage (unread (Body signedPost)) = Inr \<lparr>Object = ''page'', Entry = ()\<rparr>"
    by (simp add: decodePage_def signedPost_def)
  have n: "decodePage [] = Inl (errors_New ''unexpected end of JSON input'')"
    by (simp add: decodePage_def pageEvent_def)
  show ?thesis
    using rootHandlerFunc_skips_registered_handler [OF p v d _ n, of "''page''"
        failingHandler acceptingHandler]
    by simp
qed

text \<open>In part\_000 the same event calls the handler registered last.\<close>

lemma getObjectHandlerFunc_invokes_last_registered:
  assumes "Method r = ''POST''" and "failure (Body r) = None"
    and "verifySignature (Header_Get (Header r) ''X-Hub-Signature'') (Secret ws)
           (unread (Body r)) = None"
    and "Unmarshal (unread (Body r)) = Inr rb" and "Object rb = object"
  shows "getObjectHandlerFunc Unmarshal
           (HandleObjectFunc_pattern (HandleObjectFunc_pattern ws pattern object h1) pattern object h2)
           pattern newResponseWriter r =
         (\<lparr>status = Some (if h2 rb = None then 200 else 400), body = []\<rparr>, Some (h2, rb))"
  using assms(3,4,5)
  by (simp add: getObjectHandlerFunc_POST [OF assms(1,2)] HandleObjectFunc_pattern_last_wins)
    (simp add: HandleObjectFunc_pattern_def Let_def)

end
